theory Spec2Isabelle
  imports Main "HOL-Library.Char_ord" "HOL-Library.List_Lexorder" "HOL-Library.Multiset"
begin

section \<open>Library record service: the handlers of library_rest_api.py\<close>

text \<open>
  The service keeps books, readers and loans in a PostgreSQL database and answers HTTP
  requests through FastAPI handlers that talk to the database through an SQLAlchemy
  session. The embedding follows library_rest_api.py handler by handler:
  \<^item> a table is the list of its rows, in the order a query without ORDER BY returns
    them; an insert appends a row, and an update writes a new version of the row, which
    such a query returns after the rows that were there;
  \<^item> the session is the committed database together with the changes that wait for
    the next commit (the session is made with autoflush off, so a query reads the
    committed rows);
  \<^item> a raised exception is the left summand of the result; the
    \<^verbatim>\<open>except Exception\<close> clause of a handler is a function on that result;
  \<^item> a handler takes the store and gives back its answer and the store it leaves.
\<close>

subsection \<open>Rows\<close>

text \<open>
  \<^verbatim>\<open>class BookCreate(BaseModel)\<close>: the request body of the book handlers and the
  response model of \<^verbatim>\<open>GET /books/{book_id}\<close>.
\<close>

record book_create =
  title :: string
  author :: string
  publisher :: string
  topic :: string

text \<open>
  Modelled from the spec: models.py, which declares the mapped classes Book, Reader and
  Loan, is not among the sources. The columns of Book are those of section 3 of the
  specification (year_published as the migration script adds it, nullable). The column
  \<^verbatim>\<open>id\<close> of each table carries the table's name here.
\<close>

record book = book_create +
  book_id :: int
  year_published :: "int option"

text \<open>
  Modelled from the spec: the mapped class Reader of models.py, with the columns of
  section 3 of the specification.
\<close>

record reader =
  reader_id :: int
  name :: string
  address :: string
  phone :: string
  email :: "string option"

text \<open>
  Modelled from the spec: the mapped class Loan of models.py, with the columns of
  section 3 of the specification; \<open>loan_book_id\<close> and \<open>loan_reader_id\<close> are its columns
  \<^verbatim>\<open>book_id\<close> and \<^verbatim>\<open>reader_id\<close>.
\<close>

record loan =
  loan_id :: int
  loan_book_id :: int
  loan_reader_id :: int

text \<open>
  The database: the three tables, and the sequence that numbers the rows of
  \<^verbatim>\<open>books\<close> (the only table the handlers below insert into).
\<close>

record store =
  books :: "book list"
  readers :: "reader list"
  loans :: "loan list"
  books_id_seq :: int

subsection \<open>Exceptions\<close>

text \<open>
  What a handler can raise. \<open>Str e\<close> is Python's \<^verbatim>\<open>str(e)\<close>, kept unevaluated: its
  text depends on the installed Starlette and driver versions.
\<close>

datatype exn =
    HTTPException (status_code: nat) (detail: detail)
  | SQLAlchemyError string
and detail =
    Text string
  | Str exn

subsection \<open>The session\<close>

text \<open>
  The changes a session collects until the commit: \<^verbatim>\<open>db.add(Book(...))\<close>,
  \<^verbatim>\<open>db.delete(row)\<close> (the row is deleted by its primary key) and the assignment
  \<^verbatim>\<open>book.publisher = ...\<close> to a loaded row (an UPDATE by primary key).
\<close>

datatype change =
    Add_Book book_create
  | Delete_Book int
  | Delete_Reader int
  | Delete_Loan int
  | Set_Publisher int string

record session =
  database :: store
  pending :: "change list"

text \<open>
  Faults of the database connection where the handlers write: whether the commit
  fails and whether the SELECT of \<^verbatim>\<open>db.refresh\<close> fails.
\<close>

record faults =
  commit_fails :: bool
  refresh_fails :: bool

definition no_faults :: faults where
  "no_faults = \<lparr>commit_fails = False, refresh_fails = False\<rparr>"

definition SessionLocal :: "store \<Rightarrow> session" where
  "SessionLocal s = \<lparr>database = s, pending = []\<rparr>"

fun apply_change :: "store \<Rightarrow> change \<Rightarrow> store" where
  "apply_change s (Add_Book bk) =
     s\<lparr>books := books s @
          [\<lparr>title = title bk, author = author bk, publisher = publisher bk,
            topic = topic bk, book_id = books_id_seq s, year_published = None\<rparr>],
       books_id_seq := books_id_seq s + 1\<rparr>"
| "apply_change s (Delete_Book i) = s\<lparr>books := filter (\<lambda>b. book_id b \<noteq> i) (books s)\<rparr>"
| "apply_change s (Delete_Reader i) =
     s\<lparr>readers := filter (\<lambda>r. reader_id r \<noteq> i) (readers s)\<rparr>"
| "apply_change s (Delete_Loan i) = s\<lparr>loans := filter (\<lambda>l. loan_id l \<noteq> i) (loans s)\<rparr>"
| "apply_change s (Set_Publisher i p) =
     s\<lparr>books := filter (\<lambda>b. book_id b \<noteq> i) (books s) @
                 map (\<lambda>b. b\<lparr>publisher := p\<rparr>) (filter (\<lambda>b. book_id b = i) (books s))\<rparr>"

definition db_add :: "change \<Rightarrow> session \<Rightarrow> session" where
  "db_add c ss = ss\<lparr>pending := pending ss @ [c]\<rparr>"

definition db_delete :: "change \<Rightarrow> session \<Rightarrow> session" where
  "db_delete c ss = ss\<lparr>pending := pending ss @ [c]\<rparr>"

text \<open>
  An assignment to a column of a loaded row: the session notes the row as changed and
  the next commit writes the UPDATE.
\<close>

definition db_dirty :: "change \<Rightarrow> session \<Rightarrow> session" where
  "db_dirty c ss = ss\<lparr>pending := pending ss @ [c]\<rparr>"

text \<open>
  \<^verbatim>\<open>db.commit()\<close> writes the pending changes in one transaction: all of them, or, when
  it fails, none.
\<close>

definition db_commit :: "faults \<Rightarrow> session \<Rightarrow> (exn + unit) \<times> session" where
  "db_commit f ss =
     (if commit_fails f then (Inl (SQLAlchemyError ''commit failed''), ss)
      else (Inr (), \<lparr>database = foldl apply_change (database ss) (pending ss),
                     pending = []\<rparr>))"

text \<open>\<^verbatim>\<open>db.rollback()\<close> drops what is not committed; what is committed stays.\<close>

definition db_rollback :: "session \<Rightarrow> session" where
  "db_rollback ss = ss\<lparr>pending := []\<rparr>"

text \<open>\<^verbatim>\<open>.first()\<close>: the first row of a query, or None.\<close>

definition first :: "'a list \<Rightarrow> 'a option" where
  "first xs = (case xs of [] \<Rightarrow> None | x # _ \<Rightarrow> Some x)"

text \<open>
  \<^verbatim>\<open>db.refresh(new_book)\<close> reads the row of the object again, by its primary key; it
  raises when the row is not there.
\<close>

definition db_refresh_book :: "faults \<Rightarrow> int \<Rightarrow> session \<Rightarrow> exn + book" where
  "db_refresh_book f i ss =
     (if refresh_fails f then Inl (SQLAlchemyError ''refresh failed'')
      else case first (filter (\<lambda>b. book_id b = i) (books (database ss))) of
             None \<Rightarrow> Inl (SQLAlchemyError ''Could not refresh instance'')
           | Some b \<Rightarrow> Inr b)"

text \<open>
  \<^verbatim>\<open>.offset(skip).limit(limit).all()\<close>. PostgreSQL refuses a negative OFFSET or LIMIT, and
  the statement raises.
\<close>

definition offset_limit_all :: "int \<Rightarrow> int \<Rightarrow> 'a list \<Rightarrow> exn + 'a list" where
  "offset_limit_all skip limit rows =
     (if skip < 0 then Inl (SQLAlchemyError ''OFFSET must not be negative'')
      else if limit < 0 then Inl (SQLAlchemyError ''LIMIT must not be negative'')
      else Inr (take (nat limit) (drop (nat skip) rows)))"

text \<open>
  The clause every writing handler ends with:
  \<^verbatim>\<open>except Exception as e: db.rollback(); raise HTTPException(status_code=500, detail=str(e))\<close>.
  It catches whatever the \<^verbatim>\<open>try\<close> body raised, an HTTPException included. The store the
  handler leaves is the committed database of the session.
\<close>

definition except_Exception :: "(exn + 'a) \<times> session \<Rightarrow> (exn + 'a) \<times> store" where
  "except_Exception r =
     (case r of
        (Inr v, ss) \<Rightarrow> (Inr v, database ss)
      | (Inl e, ss) \<Rightarrow> (Inl (HTTPException 500 (Str e)), database (db_rollback ss)))"

subsection \<open>POST /books/\<close>

text \<open>
  The body of the \<^verbatim>\<open>try\<close>, then the handler. \<open>new_id\<close> is the id the sequence gives the
  new row when the commit writes it; \<^verbatim>\<open>db.refresh(new_book)\<close> reads the row with that id.
\<close>

definition create_book_try ::
  "faults \<Rightarrow> book_create \<Rightarrow> session \<Rightarrow> (exn + string \<times> book) \<times> session" where
  "create_book_try f bk ss =
     (case first (filter (\<lambda>b. title b = title bk) (books (database ss))) of
        Some existing_book \<Rightarrow>
          (Inl (HTTPException 400 (Text ''Book with this title already exists'')), ss)
      | None \<Rightarrow>
          (let new_id = books_id_seq (database ss);
               ss1 = db_add (Add_Book \<lparr>title = title bk, author = author bk,
                                       publisher = publisher bk, topic = topic bk\<rparr>) ss
           in case db_commit f ss1 of
                (Inl e, ss2) \<Rightarrow> (Inl e, ss2)
              | (Inr u, ss2) \<Rightarrow>
                  (case db_refresh_book f new_id ss2 of
                     Inl e \<Rightarrow> (Inl e, ss2)
                   | Inr new_book \<Rightarrow> (Inr (''Book added successfully'', new_book), ss2))))"

definition create_book ::
  "faults \<Rightarrow> book_create \<Rightarrow> store \<Rightarrow> (exn + string \<times> book) \<times> store" where
  "create_book f bk s = except_Exception (create_book_try f bk (SessionLocal s))"

subsection \<open>GET /books/\<close>

text \<open>
  \<^verbatim>\<open>getattr(Book, order_by)\<close>, for the four names the handler lets through. ORDER BY
  compares strings; the order taken here is the lexicographic order of the characters.
  A descending sort is the ascending one read backwards.
\<close>

definition getattr_Book :: "string \<Rightarrow> (book \<Rightarrow> string) option" where
  "getattr_Book column =
     (if column = ''title'' then Some title
      else if column = ''author'' then Some author
      else if column = ''publisher'' then Some publisher
      else if column = ''topic'' then Some topic
      else None)"

definition order_by_asc :: "(book \<Rightarrow> string) \<Rightarrow> book list \<Rightarrow> book list" where
  "order_by_asc col rows = sort_key col rows"

definition order_by_desc :: "(book \<Rightarrow> string) \<Rightarrow> book list \<Rightarrow> book list" where
  "order_by_desc col rows = rev (sort_key col rows)"

definition read_books :: "int \<Rightarrow> int \<Rightarrow> string \<Rightarrow> bool \<Rightarrow> store \<Rightarrow> exn + book list" where
  "read_books skip limit order_by ascending s =
     (let query = books s in
      if order_by \<in> set [''title'', ''author'', ''publisher'', ''topic''] then
        (case getattr_Book order_by of
           None \<Rightarrow> Inl (SQLAlchemyError ''AttributeError'')
         | Some col \<Rightarrow>
             offset_limit_all skip limit
               (if ascending then order_by_asc col query else order_by_desc col query))
      else offset_limit_all skip limit query)"

subsection \<open>GET /books/{book_id}\<close>

text \<open>
  This handler has no \<^verbatim>\<open>try\<close>: its 404 reaches the client. The response model
  BookCreate keeps the four fields of the row it names (the fields are read off the
  returned row by attribute).
\<close>

definition read_book :: "int \<Rightarrow> store \<Rightarrow> exn + book_create" where
  "read_book i s =
     (case first (filter (\<lambda>b. book_id b = i) (books s)) of
        None \<Rightarrow> Inl (HTTPException 404 (Text ''Book not found''))
      | Some b \<Rightarrow> Inr (book_create.truncate b))"

subsection \<open>DELETE /books/{book_id}\<close>

definition delete_book_try :: "faults \<Rightarrow> int \<Rightarrow> session \<Rightarrow> (exn + string) \<times> session" where
  "delete_book_try f i ss =
     (case first (filter (\<lambda>b. book_id b = i) (books (database ss))) of
        None \<Rightarrow> (Inl (HTTPException 404 (Text ''Book not found'')), ss)
      | Some b \<Rightarrow>
          (let ss1 = db_delete (Delete_Book (book_id b)) ss
           in case db_commit f ss1 of
                (Inl e, ss2) \<Rightarrow> (Inl e, ss2)
              | (Inr u, ss2) \<Rightarrow> (Inr ''Book deleted successfully'', ss2)))"

definition delete_book :: "faults \<Rightarrow> int \<Rightarrow> store \<Rightarrow> (exn + string) \<times> store" where
  "delete_book f i s = except_Exception (delete_book_try f i (SessionLocal s))"

subsection \<open>DELETE /readers/{reader_id}\<close>

definition delete_reader_try :: "faults \<Rightarrow> int \<Rightarrow> session \<Rightarrow> (exn + string) \<times> session" where
  "delete_reader_try f i ss =
     (case first (filter (\<lambda>r. reader_id r = i) (readers (database ss))) of
        None \<Rightarrow> (Inl (HTTPException 404 (Text ''Reader not found'')), ss)
      | Some rd \<Rightarrow>
          (let lns = filter (\<lambda>l. loan_reader_id l = i) (loans (database ss));
               ss1 = foldl (\<lambda>acc ln. db_delete (Delete_Loan (loan_id ln)) acc) ss lns;
               ss2 = db_delete (Delete_Reader (reader_id rd)) ss1
           in case db_commit f ss2 of
                (Inl e, ss3) \<Rightarrow> (Inl e, ss3)
              | (Inr u, ss3) \<Rightarrow> (Inr ''Reader deleted successfully and loans removed'', ss3)))"

definition delete_reader :: "faults \<Rightarrow> int \<Rightarrow> store \<Rightarrow> (exn + string) \<times> store" where
  "delete_reader f i s = except_Exception (delete_reader_try f i (SessionLocal s))"

subsection \<open>GET /books/search/\<close>

text \<open>
  \<^verbatim>\<open>author: str = Query(None)\<close>: the parameter is absent (None) or a string, and
  \<^verbatim>\<open>if author:\<close> holds for a string that is not empty.
\<close>

definition truthy :: "string option \<Rightarrow> bool" where
  "truthy q = (case q of None \<Rightarrow> False | Some v \<Rightarrow> v \<noteq> [])"

definition search_query :: "string option \<Rightarrow> string option \<Rightarrow> store \<Rightarrow> book list" where
  "search_query author_q topic_q s =
     (let query = books s;
          query = (if truthy author_q then filter (\<lambda>b. Some (author b) = author_q) query
                   else query);
          query = (if truthy topic_q then filter (\<lambda>b. Some (topic b) = topic_q) query
                   else query)
      in query)"

definition search_books ::
  "string option \<Rightarrow> string option \<Rightarrow> int \<Rightarrow> int \<Rightarrow> store \<Rightarrow> exn + book list" where
  "search_books author_q topic_q skip limit s =
     (case offset_limit_all skip limit (search_query author_q topic_q s) of
        Inl e \<Rightarrow> Inl e
      | Inr bs \<Rightarrow>
          if bs = [] then Inl (HTTPException 404 (Text ''No books found with given criteria''))
          else Inr bs)"

subsection \<open>GET /loans/details/\<close>

text \<open>The inner joins: a loan is listed once for each pair of a book and a reader it names.\<close>

definition loans_join_book_reader :: "store \<Rightarrow> loan list" where
  "loans_join_book_reader s =
     [l. l \<leftarrow> loans s, b \<leftarrow> books s, loan_book_id l = book_id b,
         r \<leftarrow> readers s, loan_reader_id l = reader_id r]"

definition get_loan_details :: "int \<Rightarrow> int \<Rightarrow> store \<Rightarrow> exn + loan list" where
  "get_loan_details skip limit s =
     (case offset_limit_all skip limit (loans_join_book_reader s) of
        Inl e \<Rightarrow> Inl e
      | Inr ls \<Rightarrow>
          if ls = [] then Inl (HTTPException 404 (Text ''No loans found'')) else Inr ls)"

subsection \<open>PUT /books/update_publisher/\<close>

definition update_books_publisher_try ::
  "faults \<Rightarrow> int \<Rightarrow> string \<Rightarrow> session \<Rightarrow> (exn + string) \<times> session" where
  "update_books_publisher_try f i new_publisher ss =
     (case first (filter (\<lambda>b. book_id b = i) (books (database ss))) of
        None \<Rightarrow> (Inl (HTTPException 404 (Text ''Book not found with the given ID'')), ss)
      | Some book_to_update \<Rightarrow>
          (let ss1 = db_dirty (Set_Publisher (book_id book_to_update) new_publisher) ss
           in case db_commit f ss1 of
                (Inl e, ss2) \<Rightarrow> (Inl e, ss2)
              | (Inr u, ss2) \<Rightarrow> (Inr ''Book updated successfully'', ss2)))"

definition update_books_publisher ::
  "faults \<Rightarrow> int \<Rightarrow> string \<Rightarrow> store \<Rightarrow> (exn + string) \<times> store" where
  "update_books_publisher f i new_publisher s =
     except_Exception (update_books_publisher_try f i new_publisher (SessionLocal s))"

subsection \<open>GET /books/count_by_topic/\<close>

text \<open>
  \<^verbatim>\<open>GROUP BY topic\<close> with \<^verbatim>\<open>count(id)\<close>: one row for each topic that occurs, with the
  number of books that have it (the id of a row is never NULL).
\<close>

definition group_by_topic :: "book list \<Rightarrow> (string \<times> int) list" where
  "group_by_topic rows =
     map (\<lambda>t. (t, int (length (filter (\<lambda>b. topic b = t) rows)))) (remdups (map topic rows))"

definition count_books_by_topic :: "int \<Rightarrow> int \<Rightarrow> store \<Rightarrow> exn + (string \<times> int) list" where
  "count_books_by_topic skip limit s =
     (case offset_limit_all skip limit (group_by_topic (books s)) of
        Inl e \<Rightarrow> Inl e
      | Inr count_by_topic \<Rightarrow>
          if count_by_topic = [] then Inl (HTTPException 404 (Text ''No books found''))
          else Inr count_by_topic)"

subsection \<open>Well-formed stores\<close>

text \<open>
  The primary key of \<^verbatim>\<open>books\<close>: no two rows share an id, and the sequence is ahead of
  every id it has given out.
\<close>

definition valid_store :: "store \<Rightarrow> bool" where
  "valid_store s \<longleftrightarrow>
     distinct (map book_id (books s)) \<and> list_all (\<lambda>b. book_id b < books_id_seq s) (books s)"

subsection \<open>The filters as the specification words them\<close>

text \<open>
  "The subset of Book rows matching all supplied equality filters": a parameter that is
  given, empty string or not, is an equality filter. This is the reading the handler's
  query is compared with.
\<close>

definition matching_books :: "string option \<Rightarrow> string option \<Rightarrow> store \<Rightarrow> book list" where
  "matching_books author_q topic_q s =
     filter (\<lambda>b. (case author_q of None \<Rightarrow> True | Some a \<Rightarrow> author b = a) \<and>
                 (case topic_q of None \<Rightarrow> True | Some t \<Rightarrow> topic b = t)) (books s)"

subsection \<open>Sample stores\<close>

definition book_T :: book_create where
  "book_T = \<lparr>title = ''T'', author = ''A'', publisher = ''P'', topic = ''X''\<rparr>"

definition row_T :: book where
  "row_T = \<lparr>title = ''T'', author = ''A'', publisher = ''P'', topic = ''X'',
            book_id = 1, year_published = None\<rparr>"

definition row_S :: book where
  "row_S = \<lparr>title = ''S'', author = ''B'', publisher = ''Q'', topic = ''X'',
            book_id = 2, year_published = None\<rparr>"

definition empty_store :: store where
  "empty_store = \<lparr>books = [], readers = [], loans = [], books_id_seq = 1\<rparr>"

definition store_T :: store where
  "store_T = \<lparr>books = [row_T], readers = [], loans = [], books_id_seq = 2\<rparr>"

definition store_TS :: store where
  "store_TS = \<lparr>books = [row_T, row_S], readers = [], loans = [], books_id_seq = 3\<rparr>"

definition book_S :: book_create where
  "book_S = \<lparr>title = ''S'', author = ''B'', publisher = ''Q'', topic = ''X''\<rparr>"

definition row_T_R :: book where
  "row_T_R = \<lparr>title = ''T'', author = ''A'', publisher = ''R'', topic = ''X'',
              book_id = 1, year_published = None\<rparr>"

definition store_ST :: store where
  "store_ST = \<lparr>books = [row_S, row_T_R], readers = [], loans = [], books_id_seq = 3\<rparr>"

definition reader_2 :: reader where
  "reader_2 = \<lparr>reader_id = 2, name = ''R2'', address = ''Street 2'', phone = ''200'',
               email = None\<rparr>"

definition loan_2 :: loan where
  "loan_2 = \<lparr>loan_id = 2, loan_book_id = 1, loan_reader_id = 2\<rparr>"

definition store_loans :: store where
  "store_loans =
     \<lparr>books = [row_T],
      readers = [\<lparr>reader_id = 1, name = ''R1'', address = ''Street 1'', phone = ''100'',
                  email = None\<rparr>, reader_2],
      loans = [\<lparr>loan_id = 1, loan_book_id = 1, loan_reader_id = 1\<rparr>, loan_2,
               \<lparr>loan_id = 3, loan_book_id = 1, loan_reader_id = 1\<rparr>],
      books_id_seq = 2\<rparr>"

section \<open>Properties\<close>

subsection \<open>Auxiliary facts\<close>

lemma first_simps: "first [] = None" "first (x # xs) = Some x"
  by (simp_all add: first_def)

lemma first_filter_None: "first (filter P xs) = None \<longleftrightarrow> (\<forall>x\<in>set xs. \<not> P x)"
  by (induction xs) (auto simp: first_def)

lemma first_filter_Some: "first (filter P xs) = Some x \<Longrightarrow> x \<in> set xs \<and> P x"
  by (induction xs) (auto simp: first_def split: if_splits)

lemmas handler_defs =
  SessionLocal_def except_Exception_def db_rollback_def db_commit_def db_add_def
  db_delete_def db_dirty_def db_refresh_book_def

lemmas sample_defs =
  book_T_def row_T_def row_S_def empty_store_def store_T_def store_TS_def reader_2_def
  book_S_def row_T_R_def store_ST_def
  loan_2_def store_loans_def no_faults_def

lemma foldl_db_delete_pending:
  "foldl (\<lambda>acc ln. db_delete (Delete_Loan (loan_id ln)) acc) ss lns =
     ss\<lparr>pending := pending ss @ map (\<lambda>ln. Delete_Loan (loan_id ln)) lns\<rparr>"
  by (induction lns arbitrary: ss) (simp_all add: db_delete_def)

lemma foldl_pending_append:
  "foldl (\<lambda>acc ln. acc\<lparr>pending := pending acc @ [Delete_Loan (loan_id ln)]\<rparr>)
     (ss::session) lns =
     ss\<lparr>pending := pending ss @ map (\<lambda>ln. Delete_Loan (loan_id ln)) lns\<rparr>"
  using foldl_db_delete_pending[of ss lns] by (simp add: db_delete_def)

lemma apply_Delete_Loans:
  "foldl apply_change s (map (\<lambda>ln. Delete_Loan (loan_id ln)) lns) =
     s\<lparr>loans := filter (\<lambda>l. loan_id l \<notin> loan_id ` set lns) (loans s)\<rparr>"
proof (induction lns arbitrary: s)
  case Nil
  then show ?case by simp
next
  case (Cons ln lns)
  show ?case
    by (simp add: Cons.IH)
qed

subsection \<open>The primary key is kept\<close>

lemma distinct_ids_set_publisher:
  assumes "distinct (map book_id bs)"
  shows "distinct (map book_id (filter (\<lambda>b. book_id b \<noteq> i) bs @
           map (\<lambda>b. b\<lparr>publisher := p\<rparr>) (filter (\<lambda>b. book_id b = i) bs)))"
proof -
  have m: "map book_id (map (\<lambda>b. b\<lparr>publisher := p\<rparr>) (filter (\<lambda>b. book_id b = i) bs))
           = map book_id (filter (\<lambda>b. book_id b = i) bs)"
    by simp
  have a: "distinct (map book_id (filter (\<lambda>b. book_id b \<noteq> i) bs))"
    using assms by (rule distinct_map_filter)
  have b: "distinct (map book_id (filter (\<lambda>b. book_id b = i) bs))"
    using assms by (rule distinct_map_filter)
  have c: "set (map book_id (filter (\<lambda>b. book_id b \<noteq> i) bs)) \<inter>
           set (map book_id (filter (\<lambda>b. book_id b = i) bs)) = {}"
    by auto
  show ?thesis
    unfolding map_append m using a b c by (simp only: distinct_append)
qed

lemma valid_store_apply_change: "valid_store s \<Longrightarrow> valid_store (apply_change s c)"
proof (cases c)
  case (Add_Book bk)
  assume "valid_store s"
  then show ?thesis
    using Add_Book by (auto simp: valid_store_def list_all_iff)
next
  case (Delete_Book i)
  assume "valid_store s"
  then show ?thesis
    using Delete_Book by (auto simp: valid_store_def list_all_iff distinct_map_filter)
next
  case (Set_Publisher i p)
  assume v: "valid_store s"
  then have d: "distinct (map book_id (filter (\<lambda>b. book_id b \<noteq> i) (books s) @
           map (\<lambda>b. b\<lparr>publisher := p\<rparr>) (filter (\<lambda>b. book_id b = i) (books s))))"
    by (simp only: valid_store_def distinct_ids_set_publisher)
  have "list_all (\<lambda>b. book_id b < books_id_seq s)
          (filter (\<lambda>b. book_id b \<noteq> i) (books s) @
           map (\<lambda>b. b\<lparr>publisher := p\<rparr>) (filter (\<lambda>b. book_id b = i) (books s)))"
    using v by (auto simp: valid_store_def list_all_iff)
  with d show ?thesis
    using Set_Publisher by (simp add: valid_store_def del: map_append distinct_append)
qed (simp_all add: valid_store_def)

lemma valid_store_foldl: "valid_store s \<Longrightarrow> valid_store (foldl apply_change s cs)"
  by (induction cs arbitrary: s) (simp_all add: valid_store_apply_change)

lemma empty_store_valid: "valid_store empty_store"
  by (simp add: valid_store_def empty_store_def)

lemma create_book_valid_store: "valid_store s \<Longrightarrow> valid_store (snd (create_book f bk s))"
  by (auto simp: create_book_def create_book_try_def handler_defs Let_def
        valid_store_apply_change simp del: apply_change.simps
        split: option.splits sum.splits)

lemma delete_book_valid_store: "valid_store s \<Longrightarrow> valid_store (snd (delete_book f i s))"
  by (auto simp: delete_book_def delete_book_try_def handler_defs Let_def
        valid_store_apply_change simp del: apply_change.simps
        split: option.splits sum.splits)

lemma update_books_publisher_valid_store:
  "valid_store s \<Longrightarrow> valid_store (snd (update_books_publisher f i p s))"
  by (auto simp: update_books_publisher_def update_books_publisher_try_def handler_defs Let_def
        valid_store_apply_change simp del: apply_change.simps
        split: option.splits sum.splits)

lemma delete_reader_valid_store: "valid_store s \<Longrightarrow> valid_store (snd (delete_reader f i s))"
  by (auto simp: delete_reader_def delete_reader_try_def handler_defs Let_def
        foldl_pending_append valid_store_apply_change valid_store_foldl
        simp del: apply_change.simps split: option.splits sum.splits)

subsection \<open>POST /books/ with a title that is taken\<close>

lemma create_book_duplicate_title:
  assumes "b \<in> set (books s)" "title b = title bk"
  shows "create_book f bk s =
           (Inl (HTTPException 500
                  (Str (HTTPException 400 (Text ''Book with this title already exists'')))), s)"
proof -
  have "first (filter (\<lambda>b. title b = title bk) (books s)) \<noteq> None"
    using assms by (auto simp: first_filter_None)
  then obtain e where "first (filter (\<lambda>b. title b = title bk) (books s)) = Some e"
    by auto
  then show ?thesis
    by (simp add: create_book_def create_book_try_def handler_defs)
qed

text \<open>
  Claim C1: when some book already has title t, POST /books/ with title t answers with
  the 400 "duplicate title" response and no other status.

  The handler raises that HTTPException(400) inside its \<^verbatim>\<open>try\<close>; the clause
  \<^verbatim>\<open>except Exception\<close> around it catches it and raises HTTPException(500) in its place.
  On the store that holds the book titled T, creating T again answers 500.
\<close>

theorem create_book_duplicate_title_answers_500:
  "create_book no_faults book_T store_T =
     (Inl (HTTPException 500
            (Str (HTTPException 400 (Text ''Book with this title already exists'')))),
      store_T)"
  by (simp add: create_book_def create_book_try_def handler_defs first_def sample_defs)

subsection \<open>POST /books/ that fails\<close>

lemma create_book_failure_store:
  assumes "create_book f bk s = (Inl e, s')"
  shows "s' = s \<or> (\<not> commit_fails f \<and> (\<forall>b\<in>set (books s). title b \<noteq> title bk))"
  using assms
  by (auto simp: create_book_def create_book_try_def handler_defs Let_def first_filter_None
      split: option.splits if_splits sum.splits)

text \<open>
  Claim C2: whenever POST /books/ fails, for a duplicate title or for a later persistence
  failure, the Book rows after the call are those before it.

  This holds when the title is taken and when the commit fails
  (\<open>create_book_failure_store\<close>). The handler also calls \<^verbatim>\<open>db.refresh(new_book)\<close> inside the
  same \<^verbatim>\<open>try\<close>, after the commit: when that read fails, \<^verbatim>\<open>db.rollback()\<close> finds nothing left
  to undo, the handler answers 500, and the new row is in the table.
\<close>

theorem create_book_refresh_failure_keeps_row:
  "create_book \<lparr>commit_fails = False, refresh_fails = True\<rparr> book_T empty_store =
     (Inl (HTTPException 500 (Str (SQLAlchemyError ''refresh failed''))), store_T)"
  by (simp add: create_book_def create_book_try_def handler_defs first_def sample_defs)

subsection \<open>GET /books/search/\<close>

lemma search_query_matching:
  assumes "author_q \<noteq> Some []" "topic_q \<noteq> Some []"
  shows "search_query author_q topic_q s = matching_books author_q topic_q s"
  using assms
  by (cases author_q; cases topic_q)
     (auto simp: search_query_def matching_books_def truthy_def intro: filter_cong)

text \<open>
  Claim C3, as stated: for every author string (and optional topic) the handler returns
  the rows that match all supplied filters, and answers 404 if and only if that filtered
  subset is empty.

  Two inputs on the store with the one book by author A refute it. With author A and
  skip 1 the handler answers 404 although a row matches: it tests the page, not the
  filtered rows. With the empty string as author it returns the book by A although no row
  has the empty author: it drops the filter.
\<close>

theorem search_books_404_is_about_the_page:
  "search_books (Some ''A'') None 1 10 store_T =
     Inl (HTTPException 404 (Text ''No books found with given criteria'')) \<and>
   matching_books (Some ''A'') None store_T \<noteq> [] \<and>
   search_books (Some []) None 0 10 store_T = Inr (books store_T) \<and>
   matching_books (Some []) None store_T = []"
  by (simp add: search_books_def search_query_def truthy_def offset_limit_all_def
      matching_books_def sample_defs)

text \<open>
  Claim C3, amended: for skip and limit not negative, and author and topic each left out
  or a string that is not empty, GET /books/search/ returns the skip/limit page of the
  rows that match all supplied filters, in table order, and answers 404 if and only if
  that page is empty; for skip 0 and a positive limit this is if and only if no row
  matches.
\<close>

theorem search_books_page:
  assumes "0 \<le> skip" "0 \<le> limit" "author_q \<noteq> Some []" "topic_q \<noteq> Some []"
  shows "search_books author_q topic_q skip limit s =
           (if take (nat limit) (drop (nat skip) (matching_books author_q topic_q s)) = []
            then Inl (HTTPException 404 (Text ''No books found with given criteria''))
            else Inr (take (nat limit) (drop (nat skip) (matching_books author_q topic_q s)))) \<and>
         (skip = 0 \<and> 0 < limit \<longrightarrow>
            (search_books author_q topic_q skip limit s =
               Inl (HTTPException 404 (Text ''No books found with given criteria''))
             \<longleftrightarrow> matching_books author_q topic_q s = []))"
  using assms
  by (auto simp: search_books_def offset_limit_all_def search_query_matching)

theorem search_books_page_witness:
  "(0::int) \<le> 0 \<and> (0::int) \<le> 10 \<and> Some ''B'' \<noteq> Some [] \<and> (None::string option) \<noteq> Some [] \<and>
   matching_books (Some ''B'') None store_TS = [row_S] \<and>
   search_books (Some ''B'') None 0 10 store_TS = Inr [row_S] \<and>
   search_books (Some ''B'') None 0 10 store_TS \<noteq>
     Inl (HTTPException 404 (Text ''No books found with given criteria''))"
proof -
  have m: "matching_books (Some ''B'') None store_TS = [row_S]"
    by (simp add: matching_books_def sample_defs)
  show ?thesis
    using search_books_page[of 0 10 "Some ''B''" None store_TS] m by simp
qed

subsection \<open>GET /books/count_by_topic/\<close>

lemma sum_list_indicator:
  "distinct ts \<Longrightarrow> a \<in> set ts \<Longrightarrow> sum_list (map (\<lambda>t. if a = t then 1 else 0) ts) = (1::nat)"
  by (induction ts) auto

lemma sum_list_group_lengths:
  "distinct ts \<Longrightarrow> f ` set xs \<subseteq> set ts \<Longrightarrow>
   sum_list (map (\<lambda>t. length (filter (\<lambda>b. f b = t) xs)) ts) = length xs"
proof (induction xs)
  case Nil
  then show ?case by simp
next
  case (Cons x xs)
  have "sum_list (map (\<lambda>t. length (filter (\<lambda>b. f b = t) (x # xs))) ts)
        = sum_list (map (\<lambda>t. (if f x = t then 1 else 0) + length (filter (\<lambda>b. f b = t) xs)) ts)"
    by (rule arg_cong[where f = sum_list]) (rule map_cong, auto)
  also have "\<dots> = sum_list (map (\<lambda>t. if f x = t then 1 else 0) ts)
                  + sum_list (map (\<lambda>t. length (filter (\<lambda>b. f b = t) xs)) ts)"
    by (simp add: sum_list_addf)
  also have "\<dots> = 1 + length xs"
    using Cons by (simp add: sum_list_indicator)
  finally show ?case by simp
qed

lemma group_by_topic_topics: "map fst (group_by_topic rows) = remdups (map topic rows)"
  by (simp add: group_by_topic_def comp_def)

lemma group_by_topic_sum: "sum_list (map snd (group_by_topic rows)) = int (length rows)"
proof -
  have "sum_list (map snd (group_by_topic rows))
        = int (sum_list (map (\<lambda>t. length (filter (\<lambda>b. topic b = t) rows))
                 (remdups (map topic rows))))"
    by (simp add: group_by_topic_def comp_def sum_list_of_nat[symmetric] del: sum_list_of_nat)
  also have "\<dots> = int (length rows)"
    by (subst sum_list_group_lengths) auto
  finally show ?thesis .
qed

text \<open>
  Claim C4, as stated: the handler answers 404 only when the store has no Book row at all.

  On the store with one book and skip 1 it answers 404: the page of the grouped rows is
  empty, the table is not.
\<close>

theorem count_books_by_topic_404_with_books:
  "count_books_by_topic 1 10 store_T = Inl (HTTPException 404 (Text ''No books found'')) \<and>
   books store_T \<noteq> []"
  by (simp add: count_books_by_topic_def group_by_topic_def offset_limit_all_def sample_defs)

text \<open>
  Claim C4, amended: for skip and limit not negative, GET /books/count_by_topic/ returns
  the skip/limit page of the list that has one (topic, count) pair for each distinct
  topic of the Book rows, each count the number of rows with that topic, the counts of the
  whole list summing to the number of Book rows; it answers 404 if and only if that page
  is empty, which for skip 0 and a positive limit is if and only if there is no Book row.
\<close>

theorem count_books_by_topic_page:
  assumes "0 \<le> skip" "0 \<le> limit"
  shows "count_books_by_topic skip limit s =
           (if take (nat limit) (drop (nat skip) (group_by_topic (books s))) = []
            then Inl (HTTPException 404 (Text ''No books found''))
            else Inr (take (nat limit) (drop (nat skip) (group_by_topic (books s))))) \<and>
         distinct (map fst (group_by_topic (books s))) \<and>
         set (map fst (group_by_topic (books s))) = topic ` set (books s) \<and>
         (\<forall>(t, c) \<in> set (group_by_topic (books s)).
            c = int (length (filter (\<lambda>b. topic b = t) (books s)))) \<and>
         sum_list (map snd (group_by_topic (books s))) = int (length (books s)) \<and>
         (skip = 0 \<and> 0 < limit \<longrightarrow>
            (count_books_by_topic skip limit s = Inl (HTTPException 404 (Text ''No books found''))
             \<longleftrightarrow> books s = []))"
proof -
  have page: "count_books_by_topic skip limit s =
           (if take (nat limit) (drop (nat skip) (group_by_topic (books s))) = []
            then Inl (HTTPException 404 (Text ''No books found''))
            else Inr (take (nat limit) (drop (nat skip) (group_by_topic (books s)))))"
    using assms by (simp add: count_books_by_topic_def offset_limit_all_def)
  have d: "distinct (map fst (group_by_topic (books s)))"
    by (simp add: group_by_topic_topics)
  have t: "set (map fst (group_by_topic (books s))) = topic ` set (books s)"
    by (simp add: group_by_topic_topics)
  have c: "\<forall>(t, c) \<in> set (group_by_topic (books s)).
            c = int (length (filter (\<lambda>b. topic b = t) (books s)))"
    by (auto simp: group_by_topic_def)
  have e: "group_by_topic (books s) = [] \<longleftrightarrow> books s = []"
    by (simp add: group_by_topic_def)
  have z: "skip = 0 \<and> 0 < limit \<longrightarrow>
            (count_books_by_topic skip limit s = Inl (HTTPException 404 (Text ''No books found''))
             \<longleftrightarrow> books s = [])"
  proof
    assume a: "skip = 0 \<and> 0 < limit"
    then have "take (nat limit) (drop (nat skip) (group_by_topic (books s))) = []
               \<longleftrightarrow> books s = []"
      using e by simp
    then show "count_books_by_topic skip limit s =
                 Inl (HTTPException 404 (Text ''No books found''))
               \<longleftrightarrow> books s = []"
      by (simp add: page)
  qed
  show ?thesis
    using page d t c group_by_topic_sum z by blast
qed

theorem count_books_by_topic_page_witness:
  "(0::int) \<le> 0 \<and> (0::int) \<le> 10 \<and>
   group_by_topic (books store_TS) = [(''X'', 2)] \<and>
   count_books_by_topic 0 10 store_TS = Inr [(''X'', 2)] \<and>
   sum_list (map snd (group_by_topic (books store_TS))) = int (length (books store_TS)) \<and>
   books store_TS \<noteq> []"
proof -
  have g: "group_by_topic (books store_TS) = [(''X'', 2)]"
    by (simp add: group_by_topic_def sample_defs)
  have b: "books store_TS \<noteq> []"
    by (simp add: sample_defs)
  show ?thesis
    using count_books_by_topic_page[of 0 10 store_TS] g b by simp
qed

subsection \<open>DELETE /readers/{reader_id}\<close>

lemma delete_reader_success:
  assumes "delete_reader f i s = (Inr m, s')"
  shows "s' = s\<lparr>loans := filter (\<lambda>l. loan_id l \<notin>
                     loan_id ` set (filter (\<lambda>l. loan_reader_id l = i) (loans s))) (loans s),
                 readers := filter (\<lambda>r. reader_id r \<noteq> i) (readers s)\<rparr>"
proof -
  from assms obtain rd where rd: "first (filter (\<lambda>r. reader_id r = i) (readers s)) = Some rd"
    by (auto simp: delete_reader_def delete_reader_try_def handler_defs split: option.splits)
  then have "reader_id rd = i"
    by (auto dest: first_filter_Some)
  with assms rd show ?thesis
    by (auto simp: delete_reader_def delete_reader_try_def handler_defs Let_def
        foldl_pending_append apply_Delete_Loans split: if_splits)
qed

lemma delete_reader_present:
  assumes "x \<in> set (readers s)" "reader_id x = i" "\<not> commit_fails f"
  shows "fst (delete_reader f i s) = Inr ''Reader deleted successfully and loans removed''"
proof -
  have "first (filter (\<lambda>r. reader_id r = i) (readers s)) \<noteq> None"
    using assms by (auto simp: first_filter_None)
  then obtain rd where "first (filter (\<lambda>r. reader_id r = i) (readers s)) = Some rd"
    by auto
  with assms(3) show ?thesis
    by (simp add: delete_reader_def delete_reader_try_def handler_defs Let_def)
qed

lemma loans_join_subset: "set (loans_join_book_reader s) \<subseteq> set (loans s)"
  by (auto simp: loans_join_book_reader_def)

lemma get_loan_details_subset:
  "get_loan_details skip limit s = Inr ls \<Longrightarrow> set ls \<subseteq> set (loans s)"
  using loans_join_subset[of s]
  by (auto simp: get_loan_details_def offset_limit_all_def split: if_splits
      dest!: in_set_takeD in_set_dropD)

text \<open>
  Claim C5: after DELETE /readers/{r} has succeeded, no Loan row with reader_id r is left
  (the handler deletes the loans of r, then the reader), so GET /loans/details/ on the
  store it leaves never returns a loan of r, whatever the page.
\<close>

theorem delete_reader_removes_loans:
  assumes "delete_reader f r s = (Inr m, s')"
  shows "(\<forall>l\<in>set (loans s'). loan_reader_id l \<noteq> r) \<and>
         (\<forall>x\<in>set (readers s'). reader_id x \<noteq> r) \<and>
         (\<forall>skip limit ls. get_loan_details skip limit s' = Inr ls \<longrightarrow>
            (\<forall>l\<in>set ls. loan_reader_id l \<noteq> r))"
proof -
  note s' = delete_reader_success[OF assms]
  have a: "\<forall>l\<in>set (loans s'). loan_reader_id l \<noteq> r"
    by (subst s') auto
  have b: "\<forall>x\<in>set (readers s'). reader_id x \<noteq> r"
    by (subst s') auto
  have c: "\<forall>skip limit ls. get_loan_details skip limit s' = Inr ls \<longrightarrow>
            (\<forall>l\<in>set ls. loan_reader_id l \<noteq> r)"
    using a get_loan_details_subset by blast
  from a b c show ?thesis by blast
qed

theorem delete_reader_removes_loans_witness:
  "delete_reader no_faults 1 store_loans =
     (Inr ''Reader deleted successfully and loans removed'',
      store_loans\<lparr>loans := [loan_2], readers := [reader_2]\<rparr>) \<and>
   get_loan_details 0 10 (store_loans\<lparr>loans := [loan_2], readers := [reader_2]\<rparr>)
     = Inr [loan_2] \<and>
   loan_reader_id loan_2 \<noteq> 1"
proof -
  have d: "delete_reader no_faults 1 store_loans =
     (Inr ''Reader deleted successfully and loans removed'',
      store_loans\<lparr>loans := [loan_2], readers := [reader_2]\<rparr>)"
    by (simp add: delete_reader_def delete_reader_try_def handler_defs Let_def first_def
        sample_defs)
  have g: "get_loan_details 0 10 (store_loans\<lparr>loans := [loan_2], readers := [reader_2]\<rparr>)
     = Inr [loan_2]"
    by (simp add: get_loan_details_def loans_join_book_reader_def offset_limit_all_def
        sample_defs)
  from delete_reader_removes_loans[OF d] g d show ?thesis by simp
qed

subsection \<open>DELETE /books/{book_id}\<close>

lemma delete_book_absent:
  assumes "\<forall>b\<in>set (books s). book_id b \<noteq> i"
  shows "delete_book f i s =
           (Inl (HTTPException 500 (Str (HTTPException 404 (Text ''Book not found'')))), s)"
proof -
  have "first (filter (\<lambda>b. book_id b = i) (books s)) = None"
    using assms by (subst first_filter_None) simp
  then show ?thesis
    by (simp add: delete_book_def delete_book_try_def handler_defs)
qed

text \<open>
  Claim C6: for a book id that is not in the store, DELETE /books/{id} answers 404 and
  leaves the store as it was.

  The store is left as it was, but the answer is 500: the HTTPException(404) is raised
  inside the \<^verbatim>\<open>try\<close> and the \<^verbatim>\<open>except Exception\<close> clause turns it into HTTPException(500)
  (\<open>delete_book_absent\<close>), unlike GET /books/{id}, which has no \<^verbatim>\<open>try\<close> and answers 404.
  Here on the store whose only book has id 1, for id 7.
\<close>

theorem delete_book_absent_answers_500:
  "delete_book no_faults 7 store_T =
     (Inl (HTTPException 500 (Str (HTTPException 404 (Text ''Book not found'')))), store_T) \<and>
   read_book 7 store_T = Inl (HTTPException 404 (Text ''Book not found''))"
  by (simp add: delete_book_def delete_book_try_def read_book_def handler_defs first_def
      sample_defs)

subsection \<open>GET /books/\<close>

lemma getattr_Book_cases:
  "order_by \<in> {''title'', ''author'', ''publisher'', ''topic''} \<Longrightarrow>
   \<exists>col. getattr_Book order_by = Some col"
  by (auto simp: getattr_Book_def)

lemma sorted_page: "sorted_wrt P xs \<Longrightarrow> sorted_wrt P (take n (drop m xs))"
  by (simp add: sorted_wrt_take sorted_wrt_drop)

lemma order_by_asc_sorted: "sorted (map col (order_by_asc col rows))"
  by (simp add: order_by_asc_def)

lemma order_by_desc_sorted: "sorted_wrt (\<ge>) (map col (order_by_desc col rows))"
proof -
  have "sorted (rev (map col (order_by_desc col rows)))"
    by (simp add: order_by_desc_def rev_map[symmetric])
  then show ?thesis
    by (simp add: sorted_wrt_rev del: rev_map)
qed

text \<open>
  Claim C7, as stated: an order_by outside the four names is ignored and the rows come
  back in insertion/id order.

  The handler then adds no ORDER BY at all, and the table's own order is not the order
  of the ids once a row has been updated. Through the handlers: on the store with the
  books T (id 1) and S (id 2), created in that order, the publisher of book 1 is changed;
  GET /books/ with order_by id then returns book 2 before book 1.
\<close>

theorem read_books_default_order_is_not_id_order:
  "create_book no_faults book_S store_T = (Inr (''Book added successfully'', row_S), store_TS) \<and>
   update_books_publisher no_faults 1 ''R'' store_TS =
     (Inr ''Book updated successfully'', store_ST) \<and>
   read_books 0 10 ''id'' True store_ST = Inr [row_S, row_T_R] \<and>
   map book_id [row_S, row_T_R] = [2, 1] \<and>
   \<not> sorted (map book_id [row_S, row_T_R])"
  by (simp add: create_book_def create_book_try_def update_books_publisher_def
      update_books_publisher_try_def read_books_def offset_limit_all_def handler_defs
      first_def sample_defs)

text \<open>
  Claim C7, amended: for skip and limit not negative, GET /books/ with order_by one of
  title, author, publisher, topic returns the requested page of the Book rows sorted by
  that very column, ascending or descending as the flag says (the rows sorted are a
  rearrangement of all Book rows); any other order_by is ignored without an error, and
  the page is taken from the rows in the table's default order, the order of a query
  with no ORDER BY, which need not be the order of the ids.
\<close>

theorem read_books_order:
  assumes "0 \<le> skip" "0 \<le> limit"
  shows "(\<forall>col. (order_by, col) \<in> {(''title'', title), (''author'', author),
                                    (''publisher'', publisher), (''topic'', topic)} \<longrightarrow>
           (let rows = (if ascending then order_by_asc col (books s)
                        else order_by_desc col (books s));
                page = take (nat limit) (drop (nat skip) rows)
            in mset rows = mset (books s) \<and>
               (if ascending then sorted (map col rows) else sorted_wrt (\<ge>) (map col rows)) \<and>
               read_books skip limit order_by ascending s = Inr page \<and>
               (if ascending then sorted (map col page) else sorted_wrt (\<ge>) (map col page)))) \<and>
         (order_by \<notin> {''title'', ''author'', ''publisher'', ''topic''} \<longrightarrow>
            read_books skip limit order_by ascending s =
              Inr (take (nat limit) (drop (nat skip) (books s))))"
proof (intro conjI allI impI)
  fix col :: "book \<Rightarrow> string"
  assume known: "(order_by, col) \<in> {(''title'', title), (''author'', author),
                                     (''publisher'', publisher), (''topic'', topic)}"
  then have col: "getattr_Book order_by = Some col"
    by (auto simp: getattr_Book_def)
  from known have name: "order_by \<in> set [''title'', ''author'', ''publisher'', ''topic'']"
    by auto
  define rows where "rows = (if ascending then order_by_asc col (books s)
                             else order_by_desc col (books s))"
  define page where "page = take (nat limit) (drop (nat skip) rows)"
  have m: "mset rows = mset (books s)"
    by (simp add: rows_def order_by_asc_def order_by_desc_def)
  have so: "if ascending then sorted (map col rows) else sorted_wrt (\<ge>) (map col rows)"
    using order_by_asc_sorted order_by_desc_sorted by (simp add: rows_def)
  have r: "read_books skip limit order_by ascending s = Inr page"
    using name col assms
    by (simp add: read_books_def offset_limit_all_def rows_def page_def del: set_simps)
  have sp: "if ascending then sorted (map col page) else sorted_wrt (\<ge>) (map col page)"
    using so sorted_page[of _ "map col rows" "nat limit" "nat skip"]
    by (auto simp: page_def take_map drop_map split: if_splits)
  show "let rows = (if ascending then order_by_asc col (books s)
                    else order_by_desc col (books s));
            page = take (nat limit) (drop (nat skip) rows)
        in mset rows = mset (books s) \<and>
           (if ascending then sorted (map col rows) else sorted_wrt (\<ge>) (map col rows)) \<and>
           read_books skip limit order_by ascending s = Inr page \<and>
           (if ascending then sorted (map col page) else sorted_wrt (\<ge>) (map col page))"
    unfolding Let_def using m so r sp by (simp only: rows_def page_def)
next
  assume unknown: "order_by \<notin> {''title'', ''author'', ''publisher'', ''topic''}"
  then show "read_books skip limit order_by ascending s =
              Inr (take (nat limit) (drop (nat skip) (books s)))"
    using assms by (simp add: read_books_def offset_limit_all_def)
qed

theorem read_books_order_witness:
  "(0::int) \<le> 0 \<and> (0::int) \<le> 10 \<and>
   (''author'', author) \<in> {(''title'', title), (''author'', author),
                            (''publisher'', publisher), (''topic'', topic)} \<and>
   read_books 0 10 ''author'' True store_ST = Inr [row_T_R, row_S] \<and>
   map author [row_T_R, row_S] = [''A'', ''B''] \<and>
   read_books 0 10 ''author'' False store_ST = Inr [row_S, row_T_R] \<and>
   read_books 0 10 ''title'' True store_ST = Inr [row_S, row_T_R] \<and>
   map title [row_S, row_T_R] = [''S'', ''T''] \<and>
   read_books 0 10 ''publisher'' True store_ST = Inr [row_S, row_T_R] \<and>
   map publisher [row_S, row_T_R] = [''Q'', ''R''] \<and>
   ''id'' \<notin> {''title'', ''author'', ''publisher'', ''topic''} \<and>
   read_books 0 10 ''id'' True store_ST = Inr [row_S, row_T_R]"
proof -
  have a: "order_by_asc author (books store_ST) = [row_T_R, row_S]"
    by (simp add: order_by_asc_def sample_defs)
  have d: "order_by_desc author (books store_ST) = [row_S, row_T_R]"
    by (simp add: order_by_desc_def sample_defs)
  have t: "order_by_asc title (books store_ST) = [row_S, row_T_R]"
    by (simp add: order_by_asc_def sample_defs)
  have p: "order_by_asc publisher (books store_ST) = [row_S, row_T_R]"
    by (simp add: order_by_asc_def sample_defs)
  have b: "books store_ST = [row_S, row_T_R]"
    by (simp add: sample_defs)
  have v: "map author [row_T_R, row_S] = [''A'', ''B'']" "map title [row_S, row_T_R] = [''S'', ''T'']"
    "map publisher [row_S, row_T_R] = [''Q'', ''R'']"
    by (simp_all add: sample_defs)
  show ?thesis
    using read_books_order[of 0 10 "''author''" True store_ST]
      read_books_order[of 0 10 "''author''" False store_ST]
      read_books_order[of 0 10 "''title''" True store_ST]
      read_books_order[of 0 10 "''publisher''" True store_ST]
      read_books_order[of 0 10 "''id''" True store_ST] a d t p b v
    by (simp add: Let_def)
qed

subsection \<open>POST /books/ and then GET /books/{book_id}\<close>

lemma create_book_success:
  assumes "\<forall>b\<in>set (books s). title b \<noteq> title bk"
    "\<forall>b\<in>set (books s). book_id b \<noteq> books_id_seq s"
    "\<not> commit_fails f" "\<not> refresh_fails f"
  shows "create_book f bk s =
    (Inr (''Book added successfully'',
          \<lparr>title = title bk, author = author bk, publisher = publisher bk, topic = topic bk,
           book_id = books_id_seq s, year_published = None\<rparr>),
     s\<lparr>books := books s @
          [\<lparr>title = title bk, author = author bk, publisher = publisher bk, topic = topic bk,
            book_id = books_id_seq s, year_published = None\<rparr>],
       books_id_seq := books_id_seq s + 1\<rparr>)"
proof -
  have t: "first (filter (\<lambda>b. title b = title bk) (books s)) = None"
    using assms(1) by (subst first_filter_None) simp
  have i: "filter (\<lambda>b. book_id b = books_id_seq s) (books s) = []"
    using assms(2) by (simp add: filter_empty_conv)
  show ?thesis
    using assms(3,4)
    by (simp add: create_book_def create_book_try_def handler_defs Let_def t i first_simps)
qed

text \<open>
  Claim C8: on a store with no book titled t, creating a book with fields (t, author,
  publisher, topic) and then reading the book with the id it was given returns exactly
  those four fields. (The store keeps its primary key, and neither the commit nor the
  refresh fails, so that the creation succeeds.)
\<close>

theorem create_book_then_read_book:
  assumes "valid_store s" "\<forall>b\<in>set (books s). title b \<noteq> title bk"
    "\<not> commit_fails f" "\<not> refresh_fails f"
  shows "\<exists>new_book s'.
           create_book f bk s = (Inr (''Book added successfully'', new_book), s') \<and>
           book_create.truncate new_book = bk \<and>
           read_book (book_id new_book) s' = Inr bk"
proof -
  have fresh: "\<forall>b\<in>set (books s). book_id b \<noteq> books_id_seq s"
    using assms(1) by (auto simp: valid_store_def list_all_iff)
  then have i: "filter (\<lambda>b. book_id b = books_id_seq s) (books s) = []"
    by (simp add: filter_empty_conv)
  have "read_book (books_id_seq s)
          (s\<lparr>books := books s @
             [\<lparr>title = title bk, author = author bk, publisher = publisher bk, topic = topic bk,
               book_id = books_id_seq s, year_published = None\<rparr>],
             books_id_seq := books_id_seq s + 1\<rparr>) = Inr bk"
    by (simp add: read_book_def i first_simps book_create.truncate_def)
  then show ?thesis
    using create_book_success[OF assms(2) fresh assms(3,4)]
    by (simp add: book_create.truncate_def)
qed

theorem create_book_then_read_book_witness:
  "valid_store empty_store \<and> books empty_store = [] \<and>
   \<not> commit_fails no_faults \<and> \<not> refresh_fails no_faults \<and>
   create_book no_faults book_T empty_store = (Inr (''Book added successfully'', row_T), store_T) \<and>
   read_book (book_id row_T) store_T = Inr book_T"
proof -
  have c: "create_book no_faults book_T empty_store =
             (Inr (''Book added successfully'', row_T), store_T)"
    by (simp add: create_book_def create_book_try_def handler_defs first_def sample_defs)
  have v: "valid_store empty_store"
    by (simp add: valid_store_def sample_defs)
  have h: "\<forall>b\<in>set (books empty_store). title b \<noteq> title book_T"
    by (simp add: sample_defs)
  have n: "\<not> commit_fails no_faults" "\<not> refresh_fails no_faults"
    by (simp_all add: no_faults_def)
  have e: "books empty_store = []"
    by (simp add: sample_defs)
  from create_book_then_read_book[OF v h n] c v e n show ?thesis
    by auto
qed

subsection \<open>PUT /books/update_publisher/\<close>

lemma update_books_publisher_present:
  assumes "b \<in> set (books s)" "book_id b = i" "\<not> commit_fails f"
  shows "update_books_publisher f i p s =
     (Inr ''Book updated successfully'',
      s\<lparr>books := filter (\<lambda>b. book_id b \<noteq> i) (books s) @
                  map (\<lambda>b. b\<lparr>publisher := p\<rparr>) (filter (\<lambda>b. book_id b = i) (books s))\<rparr>)"
proof -
  have "first (filter (\<lambda>b. book_id b = i) (books s)) \<noteq> None"
    using assms by (auto simp: first_filter_None)
  then obtain x where x: "first (filter (\<lambda>b. book_id b = i) (books s)) = Some x"
    by auto
  then have "book_id x = i"
    by (auto dest: first_filter_Some)
  with x assms(3) show ?thesis
    by (simp add: update_books_publisher_def update_books_publisher_try_def handler_defs)
qed

lemma update_books_publisher_absent:
  assumes "\<forall>b\<in>set (books s). book_id b \<noteq> i"
  shows "update_books_publisher f i p s =
           (Inl (HTTPException 500
                  (Str (HTTPException 404 (Text ''Book not found with the given ID'')))), s)"
proof -
  have "first (filter (\<lambda>b. book_id b = i) (books s)) = None"
    using assms by (subst first_filter_None) simp
  then show ?thesis
    by (simp add: update_books_publisher_def update_books_publisher_try_def handler_defs)
qed

text \<open>
  Claim C9: for a book id in the store, PUT /books/update_publisher/ sets the publisher
  of that book and changes nothing else; for an id that is not in the store it answers
  404.

  The first half holds when the commit goes through (\<open>update_books_publisher_present\<close>: the
  rows with that id get the new publisher, every other field, row and table stays; the
  updated row is written anew and comes last in the table). The
  second does not: the HTTPException(404) is raised inside the \<^verbatim>\<open>try\<close> and comes out of the
  \<^verbatim>\<open>except Exception\<close> clause as HTTPException(500). Here on the store whose only book
  has id 1, for id 2.
\<close>

theorem update_books_publisher_absent_answers_500:
  "update_books_publisher no_faults 2 ''Q'' store_T =
     (Inl (HTTPException 500
            (Str (HTTPException 404 (Text ''Book not found with the given ID'')))), store_T)"
  by (simp add: update_books_publisher_def update_books_publisher_try_def handler_defs
      first_def sample_defs)

subsection \<open>GET /books/search/ with an empty string\<close>

text \<open>
  Claim C10: GET /books/search/ with the empty string as author, or as topic, answers as
  if that parameter had been left out: the empty string is no filter.
\<close>

theorem search_books_empty_string_is_no_filter:
  "search_books (Some []) topic_q skip limit s = search_books None topic_q skip limit s \<and>
   search_books author_q (Some []) skip limit s = search_books author_q None skip limit s"
  by (simp add: search_books_def search_query_def truthy_def)

end
